theory Spec2Isabelle
  imports Main "HOL-Library.Sublist"
begin

section \<open>The bracketsjdk node domain: state and observable actions\<close>

text \<open>
  The module \<^verbatim>\<open>src/node/bracketsjdk.js\<close> keeps one module variable, \<^verbatim>\<open>currentProcess\<close>,
  and talks to the outside through the domain manager's event stream, the
  \<^verbatim>\<open>child_process\<close> module and the child's streams. A \<^verbatim>\<open>ChildProcess\<close> object is
  identified by a number, handed out in the order the objects are created; the same
  number stands for its \<^verbatim>\<open>pid\<close>.
\<close>

type_synonym handle = nat

text \<open>
  The file system is the set of its entries: regular files and directories, each under
  its path, the list of its components from the root. A directory that does not let
  the caller create or remove an entry in it is marked as locked.
\<close>

type_synonym path = "string list"

datatype entry =
    File path
  | Dir path
  | Locked path

fun place :: "entry \<Rightarrow> path" where
  "place (File p) = p"
| "place (Dir p) = p"
| "place (Locked p) = p"

text \<open>
  The two functions the module registers on a child's \<^verbatim>\<open>"exit"\<close> event: the one of
  line 113 that clears \<^verbatim>\<open>currentProcess\<close>, and the closure of line 87 that calls
  \<^verbatim>\<open>run(directory, className)\<close> again.
\<close>

datatype exit_listener =
    OnExitClear
  | OnExitRun string string

text \<open>Everything the module does that an observer outside can see, in order.\<close>

datatype effect =
    Emit string string string
  | Spawn handle string string
  | ExecAsync string
  | Kill handle string
  | StdinWrite handle string
  | ExecSync string "string option"

record state =
  currentProcess :: "handle option"
  nextHandle :: handle
  exitListeners :: "handle \<Rightarrow> exit_listener list"
  alive :: "handle set"
  files :: "entry set"
  effects :: "effect list"

text \<open>The module when it has just been loaded, on a machine whose file system is \<open>fs\<close>.\<close>

definition initial :: "entry set \<Rightarrow> state" where
  "initial fs = \<lparr>currentProcess = None, nextHandle = 0, exitListeners = (\<lambda>_. []),
                 alive = {}, files = fs, effects = []\<rparr>"

definition perform :: "effect \<Rightarrow> state \<Rightarrow> state" where
  "perform e s = s\<lparr>effects := effects s @ [e]\<rparr>"

definition emitEvent :: "string \<Rightarrow> string \<Rightarrow> string \<Rightarrow> state \<Rightarrow> state" where
  "emitEvent domain name payload s = perform (Emit domain name payload) s"

subsection \<open>Numbers as JavaScript prints them\<close>

fun show_nat :: "nat \<Rightarrow> string" where
  "show_nat n =
     (if n < 10 then [''0123456789'' ! n]
      else show_nat (n div 10) @ [''0123456789'' ! (n mod 10)])"

declare show_nat.simps [simp del]

definition show_int :: "int \<Rightarrow> string" where
  "show_int i = (if i < 0 then CHR ''-'' # show_nat (nat (- i)) else show_nat (nat i))"

text \<open>The exit code is a number, or \<^verbatim>\<open>null\<close> when the child was ended by a signal.\<close>

definition show_code :: "int option \<Rightarrow> string" where
  "show_code code = (case code of None \<Rightarrow> ''null'' | Some i \<Rightarrow> show_int i)"

section \<open>The process supervisor\<close>

definition killProcess :: "string \<Rightarrow> state \<Rightarrow> state" where
  \<open>killProcess platform s =
     (case currentProcess s of
        None \<Rightarrow> s
      | Some p \<Rightarrow>
          let s1 = emitEvent ''bracketsjdk'' ''output'' [CHR 0x0A] s
          in if platform = ''win32''
             then perform (ExecAsync (''taskkill /pid '' @ show_nat p @ '' /T /F'')) s1
             else perform (Kill p ''SIGINT'') s1)\<close>

definition writeToStdin :: "string \<Rightarrow> state \<Rightarrow> state" where
  "writeToStdin input s =
     (case currentProcess s of
        None \<Rightarrow> s
      | Some p \<Rightarrow> perform (StdinWrite p input) s)"

definition addExitListener :: "handle \<Rightarrow> exit_listener \<Rightarrow> state \<Rightarrow> state" where
  "addExitListener p l s = s\<lparr>exitListeners := (exitListeners s)(p := exitListeners s p @ [l])\<rparr>"

text \<open>
  \<^verbatim>\<open>child_process.exec(command, {cwd: directory})\<close>: a new \<^verbatim>\<open>ChildProcess\<close> object,
  with no listener yet, for a child that now lives.
\<close>

definition exec :: "string \<Rightarrow> string \<Rightarrow> state \<Rightarrow> handle \<times> state" where
  "exec command cwd s =
     (let p = nextHandle s
      in (p, perform (Spawn p command cwd)
               (s\<lparr>nextHandle := Suc p,
                  exitListeners := (exitListeners s)(p := []),
                  alive := insert p (alive s)\<rparr>)))"

text \<open>
  \<^verbatim>\<open>run\<close> reads \<^verbatim>\<open>currentProcess\<close> again after \<^verbatim>\<open>killProcess\<close> to register its listener;
  \<^verbatim>\<open>killProcess\<close> does not assign the variable (lemma \<open>killProcess_currentProcess\<close>), so
  the handle read before the call is the one it finds.
\<close>

definition run :: "string \<Rightarrow> string \<Rightarrow> string \<Rightarrow> state \<Rightarrow> state" where
  "run platform directory className s =
     (case currentProcess s of
        Some p \<Rightarrow>
          (let s1 = killProcess platform s
           in addExitListener p (OnExitRun directory className) s1)
      | None \<Rightarrow>
          (let s1 = emitEvent ''bracketsjdk'' ''log''
                      (''Running class '' @ className @ ''...'') s;
               (p, s2) = exec (''java '' @ className) directory s1;
               s3 = addExitListener p OnExitClear s2
           in s3\<lparr>currentProcess := Some p\<rparr>))"

text \<open>The listeners of lines 103 and 108, on the child's output streams.\<close>

definition onStdoutData :: "string \<Rightarrow> state \<Rightarrow> state" where
  "onStdoutData d s = emitEvent ''bracketsjdk'' ''output'' d s"

definition onStderrData :: "string \<Rightarrow> state \<Rightarrow> state" where
  "onStderrData d s = emitEvent ''bracketsjdk'' ''error'' d s"

text \<open>The listener of line 113; \<^verbatim>\<open>this\<close> is the child whose exit is notified.\<close>

definition onExit :: "handle \<Rightarrow> int option \<Rightarrow> state \<Rightarrow> state" where
  "onExit this code s =
     (let s1 = (if Some this = currentProcess s then s\<lparr>currentProcess := None\<rparr> else s);
          s2 = emitEvent ''bracketsjdk'' ''log''
                 (''Java exited with code: '' @ show_code code) s1
      in emitEvent ''bracketsjdk'' ''output'' [CHR 0x0A] s2)"

definition callListener ::
  "string \<Rightarrow> handle \<Rightarrow> int option \<Rightarrow> state \<Rightarrow> exit_listener \<Rightarrow> state" where
  "callListener platform this code s l =
     (case l of
        OnExitClear \<Rightarrow> onExit this code s
      | OnExitRun directory className \<Rightarrow> run platform directory className s)"

text \<open>
  The exit notification of child \<open>p\<close>: the child no longer lives, and the listeners
  registered on it so far are called in the order of their registration.
\<close>

definition emitExit :: "string \<Rightarrow> handle \<Rightarrow> int option \<Rightarrow> state \<Rightarrow> state" where
  "emitExit platform p code s =
     foldl (callListener platform p code) (s\<lparr>alive := alive s - {p}\<rparr>) (exitListeners s p)"

subsection \<open>What the host and the children can do to the module\<close>

text \<open>
  The commands registered by \<^verbatim>\<open>init\<close> are called by the host; the operating system
  notifies the exit of a child that lives, once, and delivers the output of a child that
  was started.
\<close>

datatype event =
    CallRun string string
  | CallWriteToStdin string
  | CallKillProcess
  | ExitOf handle "int option"
  | StdoutOf handle string
  | StderrOf handle string

definition step :: "string \<Rightarrow> state \<Rightarrow> event \<Rightarrow> state option" where
  "step platform s e =
     (case e of
        CallRun directory className \<Rightarrow> Some (run platform directory className s)
      | CallWriteToStdin input \<Rightarrow> Some (writeToStdin input s)
      | CallKillProcess \<Rightarrow> Some (killProcess platform s)
      | ExitOf p code \<Rightarrow> if p \<in> alive s then Some (emitExit platform p code s) else None
      | StdoutOf p d \<Rightarrow> if p < nextHandle s then Some (onStdoutData d s) else None
      | StderrOf p d \<Rightarrow> if p < nextHandle s then Some (onStderrData d s) else None)"

fun steps :: "string \<Rightarrow> state \<Rightarrow> event list \<Rightarrow> state option" where
  "steps platform s [] = Some s"
| "steps platform s (e # es) =
     (case step platform s e of None \<Rightarrow> None | Some s' \<Rightarrow> steps platform s' es)"

fun isExit :: "event \<Rightarrow> bool" where
  "isExit (ExitOf p code) = True"
| "isExit e = False"

fun isSpawn :: "effect \<Rightarrow> bool" where
  "isSpawn (Spawn p command cwd) = True"
| "isSpawn e = False"

fun isEmit :: "effect \<Rightarrow> bool" where
  "isEmit (Emit domain name payload) = True"
| "isEmit e = False"

definition spawned :: "state \<Rightarrow> nat" where
  "spawned s = length (filter isSpawn (effects s))"

text \<open>
  What holds of the module between any two events: the children that live are the one
  recorded in \<^verbatim>\<open>currentProcess\<close>, if any, and the first listener on its exit is the one
  that clears the variable, the others being deferred runs.
\<close>

fun isRun :: "exit_listener \<Rightarrow> bool" where
  "isRun (OnExitRun directory className) = True"
| "isRun OnExitClear = False"

definition consistent :: "state \<Rightarrow> bool" where
  "consistent s \<longleftrightarrow>
     (case currentProcess s of
        None \<Rightarrow> alive s = {}
      | Some p \<Rightarrow>
          alive s = {p} \<and>
          (case exitListeners s p of
             [] \<Rightarrow> False
           | l # rs \<Rightarrow> l = OnExitClear \<and> list_all isRun rs))"

section \<open>The compiler gateway\<close>

text \<open>
  \<^verbatim>\<open>child_process.execSync(command, {cwd})\<close> hands the command line to the shell of the
  operating system and waits. What the shell does with it is not in the module: it is
  the parameter \<open>sh\<close>, which answers with the exit status and the two output streams of
  the command, and with the file system the command leaves. \<^verbatim>\<open>execSync\<close> returns the
  standard output when the status is zero and throws an error that carries the result
  otherwise. A shell that cannot be started at all, and a command ended by a time limit,
  are left out.
\<close>

record completed =
  status :: int
  stdout :: string
  stderr :: string

type_synonym shell = "string \<Rightarrow> string option \<Rightarrow> entry set \<Rightarrow> completed \<times> entry set"

datatype exn = ExecError completed

definition execSync :: "shell \<Rightarrow> string \<Rightarrow> string option \<Rightarrow> state \<Rightarrow> (exn + string) \<times> state" where
  "execSync sh command cwd s =
     (let (r, fs) = sh command cwd (files s);
          s1 = perform (ExecSync command cwd) (s\<lparr>files := fs\<rparr>)
      in if status r = 0 then (Inr (stdout r), s1) else (Inl (ExecError r), s1))"

definition createDir :: "string \<Rightarrow> shell \<Rightarrow> string \<Rightarrow> state \<Rightarrow> state" where
  \<open>createDir platform sh dir s =
     (if platform = ''win32''
      then (case execSync sh (''md "'' @ dir @ ''"'') None s of
              (Inr out, s1) \<Rightarrow> s1
            | (Inl error, s1) \<Rightarrow> s1)
      else (case execSync sh (''mkdir -p "'' @ dir @ ''"'') None s of
              (Inr out, s1) \<Rightarrow> s1
            | (Inl error, s1) \<Rightarrow> s1))\<close>

definition emptyDir :: "string \<Rightarrow> shell \<Rightarrow> string \<Rightarrow> state \<Rightarrow> (exn + unit) \<times> state" where
  \<open>emptyDir platform sh dir s =
     (if platform = ''win32''
      then (case execSync sh (''rmdir /S /Q "'' @ dir @ ''"'') (Some dir) s of
              (Inr out, s1) \<Rightarrow> (Inr (), s1)
            | (Inl error, s1) \<Rightarrow> (Inr (), s1))
      else (case execSync sh (''rm -rf "'' @ dir @ ''"*'') None s of
              (Inr out, s1) \<Rightarrow> (Inr (), s1)
            | (Inl error, s1) \<Rightarrow> (Inl error, s1)))\<close>

text \<open>\<^verbatim>\<open>Array.prototype.join\<close>.\<close>

fun join :: "string \<Rightarrow> string list \<Rightarrow> string" where
  "join sep [] = []"
| "join sep [x] = x"
| "join sep (x # y # ys) = x @ sep @ join sep (y # ys)"

definition javacCommand :: "string list \<Rightarrow> string \<Rightarrow> string" where
  \<open>javacCommand filePaths outputPath =
     ''javac "'' @ join ''" "'' filePaths @ ''" -d "'' @ outputPath @ ''"''\<close>

text \<open>Lines 27 to 37 of \<^verbatim>\<open>compileFiles\<close>: the notification and the \<^verbatim>\<open>try\<close> block.\<close>

definition invokeJavac :: "shell \<Rightarrow> string list \<Rightarrow> string \<Rightarrow> state \<Rightarrow> (exn + bool) \<times> state" where
  "invokeJavac sh filePaths outputPath s =
     (let s1 = emitEvent ''bracketsjdk'' ''log'' ''Compiling...'' s
      in case execSync sh (javacCommand filePaths outputPath) None s1 of
           (Inr out, s2) \<Rightarrow> (Inr True, emitEvent ''bracketsjdk'' ''log'' ''Done.'' s2)
         | (Inl (ExecError error), s2) \<Rightarrow>
             (Inr False, emitEvent ''bracketsjdk'' ''error'' (stderr error) s2))"

definition compileFiles ::
  "string \<Rightarrow> shell \<Rightarrow> string list \<Rightarrow> string \<Rightarrow> state \<Rightarrow> (exn + bool) \<times> state" where
  "compileFiles platform sh filePaths outputPath s =
     (if length filePaths = 0 then (Inr False, s)
      else
        let s1 = createDir platform sh outputPath s
        in case emptyDir platform sh outputPath s1 of
             (Inl error, s2) \<Rightarrow> (Inl error, s2)
           | (Inr u, s2) \<Rightarrow> invokeJavac sh filePaths outputPath s2)"

subsection \<open>The file system under the commands\<close>

text \<open>
  An entry cannot be removed while it, or something below it, sits in a directory that
  is write-protected.
\<close>

definition stuck :: "entry set \<Rightarrow> path \<Rightarrow> bool" where
  "stuck fs p \<longleftrightarrow>
     (\<exists>e \<in> fs. prefix p (place e) \<and> place e \<noteq> [] \<and> Locked (butlast (place e)) \<in> fs)"

subsection \<open>The two directory commands on a POSIX shell\<close>

text \<open>
  On a platform other than \<^verbatim>\<open>win32\<close> the module builds the command lines
  \<^verbatim>\<open>mkdir -p "dir"\<close> and \<^verbatim>\<open>rm -rf "dir"*\<close>. What \<^verbatim>\<open>/bin/sh\<close> does with them is described
  for a \<^verbatim>\<open>dir\<close> that is an absolute path, holds none of the characters that stay special
  between double quotes and has no \<^verbatim>\<open>.\<close> or \<^verbatim>\<open>..\<close> component.
\<close>

text \<open>The text between a given beginning and a given end of a command line.\<close>

definition between :: "string \<Rightarrow> string \<Rightarrow> string \<Rightarrow> string option" where
  "between pre post w =
     (if prefix pre w \<and> suffix post (drop (length pre) w)
      then Some (take (length w - length pre - length post) (drop (length pre) w))
      else None)"

text \<open>The fields of a text between the occurrences of a separator.\<close>

fun fields :: "char \<Rightarrow> string \<Rightarrow> string list" where
  "fields c [] = [[]]"
| "fields c (x # xs) =
     (if x = c then [] # fields c xs
      else (case fields c xs of
              [] \<Rightarrow> [[x]]
            | w # ws \<Rightarrow> (x # w) # ws))"

definition path_of :: "string \<Rightarrow> path" where
  "path_of w = filter (\<lambda>c. c \<noteq> []) (fields CHR ''/'' w)"

definition quotable :: "string \<Rightarrow> bool" where
  "quotable w \<longleftrightarrow>
     prefix ''/'' w
     \<and> list_all (\<lambda>c. c \<notin> {CHR 0x22, CHR 0x24, CHR 0x5C, CHR 0x60}) w
     \<and> list_all (\<lambda>f. f \<noteq> ''.'' \<and> f \<noteq> ''..'') (fields CHR ''/'' w)"


text \<open>
  The word \<^verbatim>\<open>"dir"*\<close> is a pattern: the text up to the last slash names a directory, and
  the pattern stands for the entries of that directory whose name begins with the text
  after the last slash; when that text is empty, an entry whose name begins with a dot
  is not among them. A successful \<^verbatim>\<open>rm -rf\<close> has removed each of these entries with all
  that is below it, and nothing else; it does not fail when there is none.
\<close>

definition glob_dir :: "string \<Rightarrow> path" where
  "glob_dir w = filter (\<lambda>c. c \<noteq> []) (butlast (fields CHR ''/'' w))"

definition glob_base :: "string \<Rightarrow> string" where
  "glob_base w = last (fields CHR ''/'' w)"

definition globbed :: "string \<Rightarrow> path \<Rightarrow> bool" where
  "globbed w m \<longleftrightarrow>
     m \<noteq> [] \<and> butlast m = glob_dir w
     \<and> prefix (glob_base w) (last m)
     \<and> (glob_base w \<noteq> [] \<or> \<not> prefix ''.'' (last m))"

definition under_glob :: "string \<Rightarrow> path \<Rightarrow> bool" where
  "under_glob w p \<longleftrightarrow> globbed w (take (Suc (length (glob_dir w))) p)"



subsection \<open>The two directory commands on \<^verbatim>\<open>win32\<close>\<close>

text \<open>
  \<^verbatim>\<open>rmdir /S /Q\<close> started inside the directory it is to remove: what is below the
  directory goes, as far as it can be removed, and the directory itself, being in use,
  stays.
\<close>

definition rmdir_inside :: "path \<Rightarrow> entry set \<Rightarrow> entry set" where
  "rmdir_inside d fs = {e \<in> fs. \<not> (strict_prefix d (place e) \<and> \<not> stuck fs (place e))}"


subsection \<open>Two machines to try the commands on\<close>

text \<open>
  A POSIX machine, for the two commands: \<^verbatim>\<open>mkdir -p\<close> goes down the path and stops, with
  a failure, at a component that is a regular file or that is missing in a
  write-protected directory; \<^verbatim>\<open>rm -rf\<close> removes what it can of the entries the pattern
  stands for and fails when something is left of them. Every other command line is left
  to the parameter \<open>other\<close>.
\<close>

fun mkdirs :: "path \<Rightarrow> string list \<Rightarrow> entry set \<Rightarrow> bool \<times> entry set" where
  "mkdirs parent [] fs = (True, fs)"
| "mkdirs parent (c # cs) fs =
     (if Dir (parent @ [c]) \<in> fs then mkdirs (parent @ [c]) cs fs
      else if File (parent @ [c]) \<in> fs \<or> Locked parent \<in> fs then (False, fs)
      else mkdirs (parent @ [c]) cs (insert (Dir (parent @ [c])) fs))"

definition succeeded :: completed where
  "succeeded = \<lparr>status = 0, stdout = [], stderr = []\<rparr>"

definition failed :: "string \<Rightarrow> completed" where
  "failed message = \<lparr>status = 1, stdout = [], stderr = message\<rparr>"

definition posix_sh :: "shell \<Rightarrow> shell" where
  \<open>posix_sh other command cwd fs =
     (case between ''mkdir -p "'' ''"'' command of
        Some w \<Rightarrow>
          if quotable w
          then (case mkdirs [] (path_of w) fs of
                  (True, fs') \<Rightarrow> (succeeded, fs')
                | (False, fs') \<Rightarrow> (failed ''mkdir: cannot create directory'', fs'))
          else other command cwd fs
      | None \<Rightarrow>
          (case between ''rm -rf "'' ''"*'' command of
             Some w \<Rightarrow>
               if quotable w
               then (if \<exists>e \<in> fs. under_glob w (place e) \<and> stuck fs (place e)
                     then failed ''rm: cannot remove'' else succeeded,
                     {e \<in> fs. \<not> (under_glob w (place e) \<and> \<not> stuck fs (place e))})
               else other command cwd fs
           | None \<Rightarrow> other command cwd fs))\<close>

text \<open>
  A \<^verbatim>\<open>win32\<close> machine, for names written with a drive and forward slashes, in the letter
  case of the entries: \<^verbatim>\<open>md\<close> fails when the directory is there already, and otherwise
  goes down the path as above; \<^verbatim>\<open>rmdir /S /Q\<close> is the one started inside the directory,
  and reports a failure, since the directory stays.
\<close>

definition win_quotable :: "string \<Rightarrow> bool" where
  "win_quotable w \<longleftrightarrow>
     (case w of
        x # y # z # v \<Rightarrow>
          y = CHR '':'' \<and> z = CHR ''/''
          \<and> list_all (\<lambda>c. c \<notin> {CHR 0x22, CHR 0x25, CHR 0x2A, CHR 0x3A, CHR 0x3C,
                                   CHR 0x3E, CHR 0x3F, CHR 0x5C, CHR 0x7C}) (x # v)
      | _ \<Rightarrow> False)
     \<and> list_all (\<lambda>f. f \<noteq> ''.'' \<and> f \<noteq> ''..'') (fields CHR ''/'' w)"

definition win_sh :: "shell \<Rightarrow> shell" where
  \<open>win_sh other command cwd fs =
     (case between ''md "'' ''"'' command of
        Some w \<Rightarrow>
          if win_quotable w
          then (if Dir (take 1 (path_of w)) \<notin> fs
                then (failed ''The system cannot find the drive specified.'', fs)
                else if Dir (path_of w) \<in> fs \<or> File (path_of w) \<in> fs
                then (failed ''A subdirectory or file already exists.'', fs)
                else (case mkdirs [] (path_of w) fs of
                        (True, fs') \<Rightarrow> (succeeded, fs')
                      | (False, fs') \<Rightarrow> (failed ''The system cannot find the path specified.'', fs')))
          else other command cwd fs
      | None \<Rightarrow>
          (case between ''rmdir /S /Q "'' ''"'' command of
             Some w \<Rightarrow>
               if win_quotable w \<and> cwd = Some w \<and> Dir (path_of w) \<in> fs
               then (failed ''The process cannot access the file because it is being used by another process.'',
                     rmdir_inside (path_of w) fs)
               else other command cwd fs
           | None \<Rightarrow> other command cwd fs))\<close>

text \<open>A machine on which no other command is installed.\<close>

definition not_found :: shell where
  "not_found command cwd fs =
     (\<lparr>status = 127, stdout = [], stderr = ''sh: 1: '' @ takeWhile (\<lambda>c. c \<noteq> CHR '' '') command @ '': not found''\<rparr>, fs)"

section \<open>Properties of the process supervisor\<close>

subsection \<open>What each operation changes\<close>

lemma killProcess_currentProcess [simp]:
  "currentProcess (killProcess platform s) = currentProcess s"
  by (simp add: killProcess_def emitEvent_def perform_def Let_def split: option.splits)

lemma killProcess_frame [simp]:
  "nextHandle (killProcess platform s) = nextHandle s"
  "exitListeners (killProcess platform s) = exitListeners s"
  "alive (killProcess platform s) = alive s"
  "files (killProcess platform s) = files s"
  by (simp_all add: killProcess_def emitEvent_def perform_def Let_def split: option.splits)

lemma killProcess_live:
  "currentProcess s = Some p \<Longrightarrow>
   killProcess platform s =
     s\<lparr>effects := effects s @
        [Emit ''bracketsjdk'' ''output'' [CHR 0x0A],
         if platform = ''win32''
         then ExecAsync (''taskkill /pid '' @ show_nat p @ '' /T /F'')
         else Kill p ''SIGINT'']\<rparr>"
  by (simp add: killProcess_def emitEvent_def perform_def Let_def)

lemma run_live:
  "currentProcess s = Some p \<Longrightarrow>
   run platform directory className s =
     addExitListener p (OnExitRun directory className) (killProcess platform s)"
  by (simp add: run_def Let_def)

lemma run_live_currentProcess:
  "currentProcess s = Some p \<Longrightarrow> currentProcess (run platform directory className s) = Some p"
  by (simp add: run_live addExitListener_def)

lemma run_idle:
  "currentProcess s = None \<Longrightarrow>
   run platform directory className s =
     s\<lparr>currentProcess := Some (nextHandle s),
       nextHandle := Suc (nextHandle s),
       exitListeners := (exitListeners s)(nextHandle s := [OnExitClear]),
       alive := insert (nextHandle s) (alive s),
       effects := effects s @
         [Emit ''bracketsjdk'' ''log'' (''Running class '' @ className @ ''...''),
          Spawn (nextHandle s) (''java '' @ className) directory]\<rparr>"
  by (simp add: run_def exec_def emitEvent_def perform_def addExitListener_def Let_def)

lemma onExit_currentProcess:
  "currentProcess (onExit p code s) = (if currentProcess s = Some p then None else currentProcess s)"
  by (auto simp add: onExit_def emitEvent_def perform_def Let_def)

lemma callListener_other:
  "currentProcess s = Some q \<Longrightarrow> q \<noteq> p \<Longrightarrow>
   currentProcess (callListener platform p code s l) = Some q"
  by (cases l) (simp_all add: callListener_def onExit_currentProcess run_live_currentProcess)

lemma foldl_callListener_other:
  "currentProcess s = Some q \<Longrightarrow> q \<noteq> p \<Longrightarrow>
   currentProcess (foldl (callListener platform p code) s ls) = Some q"
  by (induction ls arbitrary: s) (simp_all add: callListener_other)

lemma emitExit_other:
  "currentProcess s = Some q \<Longrightarrow> q \<noteq> p \<Longrightarrow>
   currentProcess (emitExit platform p code s) = Some q"
  by (simp add: emitExit_def foldl_callListener_other)

lemma step_keeps_handle:
  "currentProcess s = Some p \<Longrightarrow> \<not> isExit e \<Longrightarrow> step platform s e = Some s' \<Longrightarrow>
   currentProcess s' = Some p"
  by (cases e)
     (auto simp add: step_def run_live_currentProcess writeToStdin_def perform_def
        onStdoutData_def onStderrData_def emitEvent_def split: if_splits)


subsection \<open>Terminating and writing\<close>

text \<open>
  Claim C7. \<^verbatim>\<open>killProcess\<close> called when no process is current does nothing: the state,
  and with it the list of events emitted and signals sent, is the one before the call, and
  the call returns normally.
\<close>

theorem killProcess_idle:
  "currentProcess s = None \<Longrightarrow> killProcess platform s = s"
  by (simp add: killProcess_def)

theorem killProcess_idle_witness:
  "currentProcess (initial {}) = None \<and> killProcess ''linux'' (initial {}) = initial {}"
  using killProcess_idle [of "initial {}" "''linux''"] by (simp add: initial_def)

text \<open>
  Claim C9. \<^verbatim>\<open>writeToStdin\<close> changes nothing when no process is current; when a process
  is current, the only thing it does is one write of the very text it was given to the
  standard input of that process.
\<close>

theorem writeToStdin_forwards:
  "(currentProcess s = None \<longrightarrow> writeToStdin input s = s) \<and>
   (\<forall>p. currentProcess s = Some p \<longrightarrow>
      writeToStdin input s = s\<lparr>effects := effects s @ [StdinWrite p input]\<rparr>)"
  by (simp add: writeToStdin_def perform_def)

theorem writeToStdin_forwards_witness:
  "writeToStdin ''42'' (initial {}) = initial {} \<and>
   effects (writeToStdin ''42'' (run ''linux'' ''/d'' ''Main'' (initial {}))) =
     [Emit ''bracketsjdk'' ''log'' ''Running class Main...'', Spawn 0 ''java Main'' ''/d'',
      StdinWrite 0 ''42'']"
  using writeToStdin_forwards [of "initial {}" "''42''"]
    writeToStdin_forwards [of "run ''linux'' ''/d'' ''Main'' (initial {})" "''42''"]
  by (simp add: initial_def run_idle)

text \<open>
  Claim C8. \<^verbatim>\<open>killProcess\<close> called while a process is current emits an
  \<^verbatim>\<open>"output"\<close> event that carries one newline, then asks for the process to be stopped
  (\<^verbatim>\<open>taskkill\<close> of the process tree on \<^verbatim>\<open>win32\<close>, \<^verbatim>\<open>SIGINT\<close> elsewhere), and changes nothing
  else: the handle stays. No call of a command and no output of a child clears the
  handle either; only an exit notification can.
\<close>

theorem killProcess_keeps_handle:
  "currentProcess s = Some p \<Longrightarrow>
   killProcess platform s =
     s\<lparr>effects := effects s @
        [Emit ''bracketsjdk'' ''output'' [CHR 0x0A],
         if platform = ''win32''
         then ExecAsync (''taskkill /pid '' @ show_nat p @ '' /T /F'')
         else Kill p ''SIGINT'']\<rparr>
   \<and> currentProcess (killProcess platform s) = Some p
   \<and> (\<forall>e s'. \<not> isExit e \<and> step platform s e = Some s' \<longrightarrow> currentProcess s' = Some p)"
  using killProcess_live [of s p platform] step_keeps_handle [of s p _ platform]
  by auto

theorem killProcess_keeps_handle_witness:
  "currentProcess (run ''linux'' ''/d'' ''Main'' (initial {})) = Some 0 \<and>
   effects (killProcess ''linux'' (run ''linux'' ''/d'' ''Main'' (initial {}))) =
     [Emit ''bracketsjdk'' ''log'' ''Running class Main...'', Spawn 0 ''java Main'' ''/d'',
      Emit ''bracketsjdk'' ''output'' [CHR 0x0A], Kill 0 ''SIGINT''] \<and>
   currentProcess (killProcess ''linux'' (run ''linux'' ''/d'' ''Main'' (initial {}))) = Some 0"
proof -
  have h: "currentProcess (run ''linux'' ''/d'' ''Main'' (initial {})) = Some 0"
    by (simp add: run_idle initial_def)
  show ?thesis
    using h killProcess_keeps_handle [OF h, of "''linux''"]
    by (simp add: run_idle initial_def)
qed

subsection \<open>Running while a process is current\<close>

text \<open>
  Claim C10. A call of \<^verbatim>\<open>run\<close> while a process is current leaves the handle on that
  process; what it does is what \<^verbatim>\<open>killProcess\<close> does, so the only event it emits is the
  \<^verbatim>\<open>"output"\<close> event with one newline, and no \<^verbatim>\<open>"Running class"\<close> notification; no child is
  started, and the requested run is registered on the exit of the current process.
\<close>

theorem run_live_defers:
  "currentProcess s = Some p \<Longrightarrow>
   currentProcess (run platform directory className s) = Some p
   \<and> effects (run platform directory className s) =
       effects s @
        [Emit ''bracketsjdk'' ''output'' [CHR 0x0A],
         if platform = ''win32''
         then ExecAsync (''taskkill /pid '' @ show_nat p @ '' /T /F'')
         else Kill p ''SIGINT'']
   \<and> filter isEmit (effects (run platform directory className s)) =
       filter isEmit (effects s) @ [Emit ''bracketsjdk'' ''output'' [CHR 0x0A]]
   \<and> exitListeners (run platform directory className s) =
       (exitListeners s)(p := exitListeners s p @ [OnExitRun directory className])
   \<and> alive (run platform directory className s) = alive s
   \<and> nextHandle (run platform directory className s) = nextHandle s"
  by (simp add: run_live killProcess_live addExitListener_def)

theorem run_live_defers_witness:
  "currentProcess (run ''linux'' ''/d'' ''A'' (initial {})) = Some 0 \<and>
   currentProcess (run ''linux'' ''/d'' ''B'' (run ''linux'' ''/d'' ''A'' (initial {}))) = Some 0 \<and>
   filter isEmit (effects (run ''linux'' ''/d'' ''B'' (run ''linux'' ''/d'' ''A'' (initial {})))) =
     [Emit ''bracketsjdk'' ''log'' ''Running class A...'',
      Emit ''bracketsjdk'' ''output'' [CHR 0x0A]]"
proof -
  have h: "currentProcess (run ''linux'' ''/d'' ''A'' (initial {})) = Some 0"
    by (simp add: run_idle initial_def)
  show ?thesis
    using h run_live_defers [OF h, of "''linux''" "''/d''" "''B''"]
    by (simp add: run_idle initial_def)
qed

subsection \<open>Two runs while a process is current\<close>

lemma emitExit_clear_runs:
  "exitListeners s p = OnExitClear # rs \<Longrightarrow>
   emitExit platform p code s =
     foldl (callListener platform p code) (onExit p code (s\<lparr>alive := alive s - {p}\<rparr>)) rs"
  by (simp add: emitExit_def callListener_def)

lemma onExit_current:
  "currentProcess s = Some p \<Longrightarrow>
   onExit p code s =
     s\<lparr>currentProcess := None,
       effects := effects s @
         [Emit ''bracketsjdk'' ''log'' (''Java exited with code: '' @ show_code code),
          Emit ''bracketsjdk'' ''output'' [CHR 0x0A]]\<rparr>"
  by (simp add: onExit_def emitEvent_def perform_def Let_def)

lemma run_live_fields:
  "currentProcess s = Some p \<Longrightarrow>
   currentProcess (run platform directory className s) = Some p
   \<and> effects (run platform directory className s) =
       effects s @
        [Emit ''bracketsjdk'' ''output'' [CHR 0x0A],
         if platform = ''win32''
         then ExecAsync (''taskkill /pid '' @ show_nat p @ '' /T /F'')
         else Kill p ''SIGINT'']
   \<and> exitListeners (run platform directory className s) =
       (exitListeners s)(p := exitListeners s p @ [OnExitRun directory className])
   \<and> alive (run platform directory className s) = alive s
   \<and> nextHandle (run platform directory className s) = nextHandle s"
  by (simp add: run_live killProcess_live addExitListener_def)

text \<open>
  Claim C1, as stated: after two calls of \<^verbatim>\<open>run\<close> while one process is current, only
  the pair of the last call is launched when that process exits, the earlier request
  being discarded. The module keeps no pending pair to overwrite: each call registers
  one more listener on the exit of the current process. With \<^verbatim>\<open>Main\<close> running and
  \<^verbatim>\<open>run("/d", "A")\<close>, \<^verbatim>\<open>run("/d", "B")\<close> called in turn, the child started when
  \<^verbatim>\<open>Main\<close> exits is \<^verbatim>\<open>java A\<close>, not \<^verbatim>\<open>java B\<close>.
\<close>

theorem run_twice_counterexample:
  "filter isSpawn (effects (emitExit ''linux'' 0 None
      (run ''linux'' ''/d'' ''B'' (run ''linux'' ''/d'' ''A''
         (run ''linux'' ''/d'' ''Main'' (initial {})))))) =
     [Spawn 0 ''java Main'' ''/d'', Spawn 1 ''java A'' ''/d'']"
  by (simp add: initial_def run_idle run_live killProcess_live addExitListener_def
        emitExit_def callListener_def onExit_current)

lemma replay_live:
  "currentProcess t = Some q \<Longrightarrow> list_all isRun rs \<Longrightarrow>
   currentProcess (foldl (callListener platform p code) t rs) = Some q
   \<and> filter isSpawn (effects (foldl (callListener platform p code) t rs)) =
       filter isSpawn (effects t)
   \<and> exitListeners (foldl (callListener platform p code) t rs) q = exitListeners t q @ rs"
proof (induction rs arbitrary: t)
  case Nil
  then show ?case by simp
next
  case (Cons l rs)
  then obtain directory className where l: "l = OnExitRun directory className"
    by (cases l) simp_all
  let ?t = "run platform directory className t"
  have step: "callListener platform p code t l = ?t"
    by (simp add: l callListener_def)
  note f = run_live_fields [OF Cons.prems(1), of platform directory className]
  from f have c: "currentProcess ?t = Some q" by simp
  have r: "list_all isRun rs" using Cons.prems(2) by simp
  have 1: "filter isSpawn (effects ?t) = filter isSpawn (effects t)"
    using f by auto
  have 2: "exitListeners ?t q = exitListeners t q @ [l]"
    using f by (simp add: l)
  show ?case
    unfolding foldl_Cons step using Cons.IH [OF c r] by (simp add: 1 2)
qed

text \<open>
  Claim C1, amended. A call of \<^verbatim>\<open>run\<close> while a process is current asks that process to
  stop (the \<^verbatim>\<open>"output"\<close> event with one newline, then \<^verbatim>\<open>SIGINT\<close>, or \<^verbatim>\<open>taskkill\<close> on
  \<^verbatim>\<open>win32\<close>) and adds the pair, as a deferred run, after the listeners already
  registered on the exit of that process, replacing none of them. When the process has
  no deferred run from before, its only exit listener being the one that clears the
  variable, and it gets two such calls and then exits, the exit is reported, the first
  pair is launched at that exit, and the second deferred run asks the new child to stop
  and is deferred to its exit; it is launched when that child exits. When runs were
  already deferred before the two calls, the first of those is the one launched at the
  exit, and the two pairs are deferred again, after the others, to the exit of the new
  child.
\<close>

theorem run_twice_replayed:
  assumes "currentProcess s = Some p"
  shows "let nl = Emit ''bracketsjdk'' ''output'' [CHR 0x0A];
             stop = (\<lambda>h. if platform = ''win32''
                          then ExecAsync (''taskkill /pid '' @ show_nat h @ '' /T /F'')
                          else Kill h ''SIGINT'');
             s2 = run platform d2 c2 (run platform d1 c1 s);
             q = nextHandle s;
             s3 = emitExit platform p code s2;
             s4 = emitExit platform q code' s3
         in exitListeners s2 p = exitListeners s p @ [OnExitRun d1 c1, OnExitRun d2 c2]
          \<and> effects s2 = effects s @ [nl, stop p, nl, stop p]
          \<and> currentProcess s2 = Some p
          \<and> (exitListeners s p = [OnExitClear] \<longrightarrow>
               effects s3 =
                 effects s2 @
                   [Emit ''bracketsjdk'' ''log'' (''Java exited with code: '' @ show_code code), nl,
                    Emit ''bracketsjdk'' ''log'' (''Running class '' @ c1 @ ''...''),
                    Spawn q (''java '' @ c1) d1,
                    nl, stop q]
             \<and> currentProcess s3 = Some q
             \<and> filter isSpawn (effects s3) =
                 filter isSpawn (effects s) @ [Spawn q (''java '' @ c1) d1]
             \<and> exitListeners s3 q = [OnExitClear, OnExitRun d2 c2]
             \<and> effects s4 =
                 effects s3 @
                   [Emit ''bracketsjdk'' ''log'' (''Java exited with code: '' @ show_code code'), nl,
                    Emit ''bracketsjdk'' ''log'' (''Running class '' @ c2 @ ''...''),
                    Spawn (Suc q) (''java '' @ c2) d2]
             \<and> currentProcess s4 = Some (Suc q)
             \<and> filter isSpawn (effects s4) =
                 filter isSpawn (effects s) @
                   [Spawn q (''java '' @ c1) d1, Spawn (Suc q) (''java '' @ c2) d2])
          \<and> (\<forall>dx cx rs. exitListeners s p = OnExitClear # OnExitRun dx cx # rs
                         \<and> list_all isRun rs \<longrightarrow>
               currentProcess s3 = Some q
             \<and> filter isSpawn (effects s3) =
                 filter isSpawn (effects s) @ [Spawn q (''java '' @ cx) dx]
             \<and> exitListeners s3 q =
                 OnExitClear # rs @ [OnExitRun d1 c1, OnExitRun d2 c2])"
proof -
  define nl where "nl = Emit ''bracketsjdk'' ''output'' [CHR 0x0A]"
  define stop where "stop = (\<lambda>h. if platform = ''win32''
                          then ExecAsync (''taskkill /pid '' @ show_nat h @ '' /T /F'')
                          else Kill h ''SIGINT'')"
  define s2 where "s2 = run platform d2 c2 (run platform d1 c1 s)"
  define q where "q = nextHandle s"
  define s3 where "s3 = emitExit platform p code s2"
  define s4 where "s4 = emitExit platform q code' s3"
  have ns: "\<not> isSpawn nl" "\<not> isSpawn (stop h)" for h
    by (simp_all add: nl_def stop_def)
  have c1: "currentProcess (run platform d1 c1 s) = Some p"
    using assms by (rule run_live_currentProcess)
  note f1 = run_live_fields [OF assms, of platform d1 c1]
  note f2 = run_live_fields [OF c1, of platform d2 c2]
  have l2: "exitListeners s2 p = exitListeners s p @ [OnExitRun d1 c1, OnExitRun d2 c2]"
    unfolding s2_def using f1 f2 by simp
  have c2: "currentProcess s2 = Some p"
    unfolding s2_def using c1 by (rule run_live_currentProcess)
  have n2: "nextHandle s2 = q"
    unfolding s2_def q_def using f1 f2 by simp
  have e2: "effects s2 = effects s @ [nl, stop p, nl, stop p]"
    unfolding s2_def nl_def stop_def using f1 f2 by simp
  let ?t = "onExit p code (s2\<lparr>alive := alive s2 - {p}\<rparr>)"
  have t: "currentProcess ?t = None" "nextHandle ?t = q"
    "effects ?t = effects s2 @
       [Emit ''bracketsjdk'' ''log'' (''Java exited with code: '' @ show_code code), nl]"
    using c2 n2 by (simp_all add: onExit_current nl_def)
  have first: "currentProcess u = Some q \<and> nextHandle u = Suc q
       \<and> exitListeners u q = [OnExitClear]
       \<and> effects u = effects ?t @
           [Emit ''bracketsjdk'' ''log'' (''Running class '' @ cx @ ''...''),
            Spawn q (''java '' @ cx) dx]"
    if "u = run platform dx cx ?t" for u dx cx
    using t that by (simp add: run_idle)
  have only: "effects s3 =
                 effects s2 @
                   [Emit ''bracketsjdk'' ''log'' (''Java exited with code: '' @ show_code code), nl,
                    Emit ''bracketsjdk'' ''log'' (''Running class '' @ c1 @ ''...''),
                    Spawn q (''java '' @ c1) d1,
                    nl, stop q]
             \<and> currentProcess s3 = Some q
             \<and> filter isSpawn (effects s3) =
                 filter isSpawn (effects s) @ [Spawn q (''java '' @ c1) d1]
             \<and> exitListeners s3 q = [OnExitClear, OnExitRun d2 c2]
             \<and> effects s4 =
                 effects s3 @
                   [Emit ''bracketsjdk'' ''log'' (''Java exited with code: '' @ show_code code'), nl,
                    Emit ''bracketsjdk'' ''log'' (''Running class '' @ c2 @ ''...''),
                    Spawn (Suc q) (''java '' @ c2) d2]
             \<and> currentProcess s4 = Some (Suc q)
             \<and> filter isSpawn (effects s4) =
                 filter isSpawn (effects s) @
                   [Spawn q (''java '' @ c1) d1, Spawn (Suc q) (''java '' @ c2) d2]"
    if o: "exitListeners s p = [OnExitClear]"
  proof -
    define u where "u = run platform d1 c1 ?t"
    note fu = first [OF u_def]
    from fu have cu: "currentProcess u = Some q" by simp
    have s3': "s3 = run platform d2 c2 u"
      using l2 o by (simp add: s3_def u_def emitExit_def callListener_def)
    note f3 = run_live_fields [OF cu, of platform d2 c2]
    have 3: "currentProcess s3 = Some q" "nextHandle s3 = Suc q"
      "exitListeners s3 q = [OnExitClear, OnExitRun d2 c2]"
      "effects s3 = effects s2 @
         [Emit ''bracketsjdk'' ''log'' (''Java exited with code: '' @ show_code code), nl,
          Emit ''bracketsjdk'' ''log'' (''Running class '' @ c1 @ ''...''),
          Spawn q (''java '' @ c1) d1, nl, stop q]"
      using fu f3 t(3) by (simp_all add: s3' nl_def stop_def)
    have sp3: "filter isSpawn (effects s3) = filter isSpawn (effects s) @ [Spawn q (''java '' @ c1) d1]"
      using ns by (simp add: 3(4) e2)
    let ?v = "onExit q code' (s3\<lparr>alive := alive s3 - {q}\<rparr>)"
    have v: "currentProcess ?v = None" "nextHandle ?v = Suc q"
      "effects ?v = effects s3 @
         [Emit ''bracketsjdk'' ''log'' (''Java exited with code: '' @ show_code code'), nl]"
      using 3(1,2) by (simp_all add: onExit_current nl_def)
    have s4': "s4 = run platform d2 c2 ?v"
      using 3(3) by (simp add: s4_def emitExit_def callListener_def)
    have 4: "currentProcess s4 = Some (Suc q)"
      "effects s4 = effects s3 @
         [Emit ''bracketsjdk'' ''log'' (''Java exited with code: '' @ show_code code'), nl,
          Emit ''bracketsjdk'' ''log'' (''Running class '' @ c2 @ ''...''),
          Spawn (Suc q) (''java '' @ c2) d2]"
      using v by (simp_all add: s4' run_idle)
    have sp4: "filter isSpawn (effects s4) =
         filter isSpawn (effects s) @ [Spawn q (''java '' @ c1) d1, Spawn (Suc q) (''java '' @ c2) d2]"
      using ns by (simp add: 4(2) sp3)
    show ?thesis using 3(1,3,4) sp3 4 sp4 by blast
  qed
  have earlier: "currentProcess s3 = Some q
             \<and> filter isSpawn (effects s3) =
                 filter isSpawn (effects s) @ [Spawn q (''java '' @ cx) dx]
             \<and> exitListeners s3 q =
                 OnExitClear # rs @ [OnExitRun d1 c1, OnExitRun d2 c2]"
    if o: "exitListeners s p = OnExitClear # OnExitRun dx cx # rs" and rs: "list_all isRun rs"
    for dx cx rs
  proof -
    define u where "u = run platform dx cx ?t"
    note fu = first [OF u_def]
    from fu have cu: "currentProcess u = Some q" by simp
    let ?rest = "rs @ [OnExitRun d1 c1, OnExitRun d2 c2]"
    have s3': "s3 = foldl (callListener platform p code) u ?rest"
      using l2 o by (simp add: s3_def u_def emitExit_def callListener_def)
    have r: "list_all isRun ?rest" using rs by simp
    note g = replay_live [OF cu r, of platform p code]
    have "filter isSpawn (effects u) = filter isSpawn (effects s) @ [Spawn q (''java '' @ cx) dx]"
      using fu t(3) ns by (simp add: e2)
    then show ?thesis using g fu by (simp add: s3')
  qed
  show ?thesis
    unfolding Let_def
    using l2 e2 c2 only earlier
    unfolding nl_def stop_def s2_def q_def s3_def s4_def
    by blast
qed

theorem run_twice_replayed_witness:
  "currentProcess (run ''linux'' ''/d'' ''Main'' (initial {})) = Some 0
   \<and> exitListeners (run ''linux'' ''/d'' ''Main'' (initial {})) 0 = [OnExitClear]
   \<and> currentProcess (emitExit ''linux'' 0 None
        (run ''linux'' ''/d'' ''B'' (run ''linux'' ''/d'' ''A''
           (run ''linux'' ''/d'' ''Main'' (initial {}))))) = Some 1
   \<and> effects (emitExit ''linux'' 0 None
        (run ''linux'' ''/d'' ''B'' (run ''linux'' ''/d'' ''A''
           (run ''linux'' ''/d'' ''Main'' (initial {}))))) =
       [Emit ''bracketsjdk'' ''log'' ''Running class Main...'', Spawn 0 ''java Main'' ''/d'',
        Emit ''bracketsjdk'' ''output'' [CHR 0x0A], Kill 0 ''SIGINT'',
        Emit ''bracketsjdk'' ''output'' [CHR 0x0A], Kill 0 ''SIGINT'',
        Emit ''bracketsjdk'' ''log'' ''Java exited with code: null'',
        Emit ''bracketsjdk'' ''output'' [CHR 0x0A],
        Emit ''bracketsjdk'' ''log'' ''Running class A...'', Spawn 1 ''java A'' ''/d'',
        Emit ''bracketsjdk'' ''output'' [CHR 0x0A], Kill 1 ''SIGINT'']
   \<and> filter isSpawn (effects (emitExit ''linux'' 1 None (emitExit ''linux'' 0 None
        (run ''linux'' ''/d'' ''B'' (run ''linux'' ''/d'' ''A''
           (run ''linux'' ''/d'' ''Main'' (initial {}))))))) =
       [Spawn 0 ''java Main'' ''/d'', Spawn 1 ''java A'' ''/d'', Spawn 2 ''java B'' ''/d'']"
proof -
  let ?s = "run ''linux'' ''/d'' ''Main'' (initial {})"
  have h: "currentProcess ?s = Some 0"
    by (simp add: run_idle initial_def)
  have l: "exitListeners ?s 0 = [OnExitClear]" "nextHandle ?s = 1"
    "effects ?s = [Emit ''bracketsjdk'' ''log'' ''Running class Main...'', Spawn 0 ''java Main'' ''/d'']"
    by (simp_all add: run_idle initial_def)
  note w = run_twice_replayed [OF h, where platform = "''linux''" and ?d1.0 = "''/d''"
      and ?c1.0 = "''A''" and ?d2.0 = "''/d''" and ?c2.0 = "''B''" and code = None and code' = None]
  show ?thesis
    using h l w by (simp add: Let_def show_code_def)
qed

subsection \<open>The exit listener\<close>

text \<open>
  Claim C2. The exit listener of a child clears \<^verbatim>\<open>currentProcess\<close> exactly when that
  child is the one recorded there, and leaves the variable alone otherwise; every child
  that \<^verbatim>\<open>run\<close> starts gets this listener; and the exit notification of a child other than
  the current one, whatever listeners it calls, leaves the current handle in place.
\<close>

theorem exit_clears_only_current:
  "currentProcess (onExit p code s) =
     (if currentProcess s = Some p then None else currentProcess s)
   \<and> (currentProcess s = None \<longrightarrow>
        currentProcess (run platform directory className s) = Some (nextHandle s)
        \<and> exitListeners (run platform directory className s) (nextHandle s) = [OnExitClear])
   \<and> (\<forall>q. currentProcess s = Some q \<and> q \<noteq> p \<longrightarrow>
        currentProcess (emitExit platform p code s) = Some q)"
  by (simp add: onExit_currentProcess emitExit_other run_idle)

theorem exit_clears_only_current_witness:
  "currentProcess (run ''linux'' ''/d'' ''B'' (emitExit ''linux'' 0 (Some 0)
     (run ''linux'' ''/d'' ''A'' (initial {})))) = Some 1
   \<and> currentProcess (emitExit ''linux'' 0 (Some 0)
        (run ''linux'' ''/d'' ''B'' (emitExit ''linux'' 0 (Some 0)
           (run ''linux'' ''/d'' ''A'' (initial {}))))) = Some 1"
proof -
  let ?s = "run ''linux'' ''/d'' ''B'' (emitExit ''linux'' 0 (Some 0)
              (run ''linux'' ''/d'' ''A'' (initial {})))"
  have h: "currentProcess ?s = Some 1"
    by (simp add: run_idle initial_def emitExit_def callListener_def onExit_def
          emitEvent_def perform_def Let_def)
  show ?thesis
    using h exit_clears_only_current [of 0 "Some 0" ?s "''linux''" "''/d''" "''B''"]
    by simp
qed

subsection \<open>One child at a time\<close>

lemma spawned_run:
  "spawned (run platform directory className s) =
     (if currentProcess s = None then Suc (spawned s) else spawned s)"
  by (cases "currentProcess s")
     (simp_all add: spawned_def run_idle run_live killProcess_live addExitListener_def)

lemma run_not_idle: "currentProcess (run platform directory className s) \<noteq> None"
  by (cases "currentProcess s") (simp_all add: run_idle run_live_currentProcess)

lemma consistent_run: "consistent s \<Longrightarrow> consistent (run platform directory className s)"
  by (cases "currentProcess s")
     (auto simp add: consistent_def run_idle run_live killProcess_live addExitListener_def
        split: list.splits)

lemma replay:
  "consistent t \<Longrightarrow> list_all isRun rs \<Longrightarrow>
   consistent (foldl (callListener platform p code) t rs)
   \<and> spawned (foldl (callListener platform p code) t rs) =
       (if currentProcess t = None \<and> rs \<noteq> [] then Suc (spawned t) else spawned t)
   \<and> (currentProcess (foldl (callListener platform p code) t rs) = None
        \<longleftrightarrow> currentProcess t = None \<and> rs = [])
   \<and> (currentProcess t \<noteq> None \<longrightarrow>
        currentProcess (foldl (callListener platform p code) t rs) = currentProcess t)"
proof (induction rs arbitrary: t)
  case Nil
  then show ?case by simp
next
  case (Cons l rs)
  then obtain directory className where l: "l = OnExitRun directory className"
    by (cases l) simp_all
  let ?t = "run platform directory className t"
  have step: "callListener platform p code t l = ?t"
    by (simp add: l callListener_def)
  have c: "consistent ?t" using Cons.prems(1) by (rule consistent_run)
  have r: "list_all isRun rs" using Cons.prems(2) by simp
  have n: "currentProcess ?t \<noteq> None" by (rule run_not_idle)
  show ?case
    using Cons.IH [OF c r] n
    by (cases "currentProcess t") (auto simp add: step spawned_run run_live_currentProcess)
qed

lemma emitExit_live:
  assumes "consistent s" and "p \<in> alive s"
  shows "consistent (emitExit platform p code s)
       \<and> spawned (emitExit platform p code s) =
           (if currentProcess (emitExit platform p code s) = None
            then spawned s else Suc (spawned s))"
proof -
  from assms have cur: "currentProcess s = Some p"
    by (auto simp add: consistent_def split: option.splits)
  with assms(1) obtain rs where ls: "exitListeners s p = OnExitClear # rs" and rs: "list_all isRun rs"
    by (auto simp add: consistent_def split: list.splits)
  let ?t = "onExit p code (s\<lparr>alive := alive s - {p}\<rparr>)"
  have e: "emitExit platform p code s = foldl (callListener platform p code) ?t rs"
    by (simp add: emitExit_def ls callListener_def)
  have a: "alive s = {p}" using assms(1) cur by (simp add: consistent_def)
  have t: "consistent ?t" "currentProcess ?t = None" "spawned ?t = spawned s"
    using cur a by (simp_all add: consistent_def onExit_def emitEvent_def perform_def spawned_def Let_def)
  show ?thesis
    using replay [OF t(1) rs, of platform p code] t(2,3) by (auto simp add: e)
qed

lemma effects_only:
  "list_all (\<lambda>e. \<not> isSpawn e) es \<Longrightarrow>
   consistent (s\<lparr>effects := effects s @ es\<rparr>) = consistent s
   \<and> spawned (s\<lparr>effects := effects s @ es\<rparr>) = spawned s"
  by (auto simp add: consistent_def spawned_def list_all_iff filter_empty_conv
        split: option.splits list.splits)

lemma writeToStdin_quiet:
  "consistent (writeToStdin input s) = consistent s
   \<and> spawned (writeToStdin input s) = spawned s
   \<and> currentProcess (writeToStdin input s) = currentProcess s"
proof (cases "currentProcess s")
  case None
  then show ?thesis by (simp add: writeToStdin_def)
next
  case (Some p)
  then have "writeToStdin input s = s\<lparr>effects := effects s @ [StdinWrite p input]\<rparr>"
    by (simp add: writeToStdin_def perform_def)
  then show ?thesis
    using effects_only [of "[StdinWrite p input]" s] by simp
qed

lemma killProcess_quiet:
  "consistent (killProcess platform s) = consistent s
   \<and> spawned (killProcess platform s) = spawned s"
proof (cases "currentProcess s")
  case None
  then show ?thesis by (simp add: killProcess_def)
next
  case (Some p)
  show ?thesis
    unfolding killProcess_live [OF Some]
    by (rule effects_only) simp
qed

lemma emitEvent_quiet:
  "consistent (emitEvent domain name payload s) = consistent s
   \<and> spawned (emitEvent domain name payload s) = spawned s
   \<and> currentProcess (emitEvent domain name payload s) = currentProcess s"
  using effects_only [of "[Emit domain name payload]" s]
  by (simp add: emitEvent_def perform_def)

lemma run_quiet:
  assumes "consistent s"
  shows "consistent (run platform directory className s)
       \<and> (currentProcess s \<noteq> None \<longrightarrow>
            currentProcess (run platform directory className s) = currentProcess s
            \<and> spawned (run platform directory className s) = spawned s)
       \<and> (currentProcess s = None \<longrightarrow>
            currentProcess (run platform directory className s) \<noteq> None
            \<and> spawned (run platform directory className s) = Suc (spawned s))"
proof (cases "currentProcess s")
  case None
  then show ?thesis
    using consistent_run [OF assms, of platform directory className]
      run_not_idle [of platform directory className s]
    by (simp add: spawned_run)
next
  case (Some p)
  then show ?thesis
    using consistent_run [OF assms, of platform directory className]
    by (simp add: spawned_run run_live_currentProcess)
qed

lemma step_quiet:
  assumes "consistent s" and "\<not> isExit e" and "step platform s e = Some s'"
  shows "consistent s'
       \<and> (currentProcess s \<noteq> None \<longrightarrow>
            currentProcess s' = currentProcess s \<and> spawned s' = spawned s)
       \<and> (currentProcess s = None \<longrightarrow>
            spawned s' = (if currentProcess s' = None then spawned s else Suc (spawned s)))"
proof (cases e)
  case (CallRun directory className)
  then have s': "s' = run platform directory className s" using assms(3) by (simp add: step_def)
  show ?thesis
    unfolding s' using run_quiet [OF assms(1), of platform directory className]
    by (cases "currentProcess s") auto
next
  case (CallWriteToStdin input)
  then have s': "s' = writeToStdin input s" using assms(3) by (simp add: step_def)
  show ?thesis
    unfolding s' using writeToStdin_quiet [of input s] assms(1) by simp
next
  case CallKillProcess
  then have s': "s' = killProcess platform s" using assms(3) by (simp add: step_def)
  show ?thesis
    unfolding s' using killProcess_quiet [of platform s] assms(1) by simp
next
  case (ExitOf p code)
  then show ?thesis using assms(2) by simp
next
  case (StdoutOf p d)
  then have s': "s' = emitEvent ''bracketsjdk'' ''output'' d s"
    using assms(3) by (simp add: step_def onStdoutData_def split: if_splits)
  show ?thesis
    unfolding s' using emitEvent_quiet [of "''bracketsjdk''" "''output''" d s] assms(1) by simp
next
  case (StderrOf p d)
  then have s': "s' = emitEvent ''bracketsjdk'' ''error'' d s"
    using assms(3) by (simp add: step_def onStderrData_def split: if_splits)
  show ?thesis
    unfolding s' using emitEvent_quiet [of "''bracketsjdk''" "''error''" d s] assms(1) by simp
qed

lemma steps_quiet:
  "consistent s \<Longrightarrow> list_all (\<lambda>e. \<not> isExit e) es \<Longrightarrow> steps platform s es = Some s' \<Longrightarrow>
   consistent s'
   \<and> (currentProcess s \<noteq> None \<longrightarrow>
        currentProcess s' = currentProcess s \<and> spawned s' = spawned s)
   \<and> (currentProcess s = None \<longrightarrow>
        spawned s' = (if currentProcess s' = None then spawned s else Suc (spawned s)))"
proof (induction es arbitrary: s)
  case Nil
  then show ?case by simp
next
  case (Cons e es)
  from Cons.prems(3) obtain s1 where 1: "step platform s e = Some s1"
    and 2: "steps platform s1 es = Some s'"
    by (auto split: option.splits)
  have q: "\<not> isExit e" and qs: "list_all (\<lambda>e. \<not> isExit e) es" using Cons.prems(2) by simp_all
  note a = step_quiet [OF Cons.prems(1) q 1]
  from a have c1: "consistent s1" by simp
  note b = Cons.IH [OF c1 qs 2]
  show ?case using a b by (cases "currentProcess s"; cases "currentProcess s1") auto
qed

lemma step_consistent:
  assumes "consistent s" and "step platform s e = Some s'"
  shows "consistent s'"
proof (cases "isExit e")
  case True
  then obtain p code where "e = ExitOf p code" by (cases e) simp_all
  then show ?thesis
    using assms emitExit_live [OF assms(1), of p platform code]
    by (auto simp add: step_def split: if_splits)
next
  case False
  then show ?thesis using step_quiet [OF assms(1) False assms(2)] by simp
qed

lemma steps_consistent:
  "consistent s \<Longrightarrow> steps platform s es = Some s' \<Longrightarrow> consistent s'"
proof (induction es arbitrary: s)
  case Nil
  then show ?case by simp
next
  case (Cons e es)
  then show ?case by (auto split: option.splits dest: step_consistent)
qed

lemma consistent_initial: "consistent (initial fs)"
  by (simp add: consistent_def initial_def)

lemma consistent_alive:
  "consistent s \<Longrightarrow> alive s = set_option (currentProcess s) \<and> card (alive s) \<le> 1"
  by (auto simp add: consistent_def split: option.splits)

text \<open>
  Claim C3. In every state the module reaches from its load, by calls of its commands,
  output of its children and exit notifications of children that live, at most one child
  lives, and it is the one recorded in \<^verbatim>\<open>currentProcess\<close>; a call of \<^verbatim>\<open>run\<close> while a
  process is current starts no child; and from an exit notification up to the next one,
  the handling of the first included, exactly one child is started.
\<close>

theorem one_live_process:
  assumes "steps platform (initial fs) es = Some s"
  shows "alive s = set_option (currentProcess s) \<and> card (alive s) \<le> 1
       \<and> (\<forall>directory className. currentProcess s \<noteq> None \<longrightarrow>
             spawned (run platform directory className s) = spawned s
             \<and> alive (run platform directory className s) = alive s)
       \<and> (\<forall>p code es' s2 q code'.
             steps platform s (ExitOf p code # es') = Some s2
             \<and> list_all (\<lambda>e. \<not> isExit e) es'
             \<and> step platform s2 (ExitOf q code') \<noteq> None
             \<longrightarrow> spawned s2 = Suc (spawned s))"
proof -
  have c: "consistent s"
    using consistent_initial assms by (rule steps_consistent)
  have between: "spawned s2 = Suc (spawned s)"
    if 1: "steps platform s (ExitOf p code # es') = Some s2"
      and 2: "list_all (\<lambda>e. \<not> isExit e) es'"
      and 3: "step platform s2 (ExitOf q code') \<noteq> None"
    for p code es' s2 q code'
  proof -
    let ?s1 = "emitExit platform p code s"
    from 1 have p: "p \<in> alive s" and r: "steps platform ?s1 es' = Some s2"
      by (auto simp add: step_def split: if_splits option.splits)
    note a = emitExit_live [OF c p, of platform code]
    from a have c1: "consistent ?s1" by simp
    note b = steps_quiet [OF c1 2 r]
    from 3 have "q \<in> alive s2" by (auto simp add: step_def split: if_splits)
    with b have "currentProcess s2 \<noteq> None"
      by (auto simp add: consistent_def split: option.splits)
    with a b show ?thesis by (cases "currentProcess ?s1") auto
  qed
  have b: "\<forall>p code es' s2 q code'.
             steps platform s (ExitOf p code # es') = Some s2
             \<and> list_all (\<lambda>e. \<not> isExit e) es'
             \<and> step platform s2 (ExitOf q code') \<noteq> None
             \<longrightarrow> spawned s2 = Suc (spawned s)"
    using between by blast
  have r: "\<forall>directory className. currentProcess s \<noteq> None \<longrightarrow>
             spawned (run platform directory className s) = spawned s
             \<and> alive (run platform directory className s) = alive s"
    by (auto simp add: spawned_run run_live addExitListener_def)
  show ?thesis
    using consistent_alive [OF c] b r by blast
qed


theorem one_live_process_witness:
  "steps ''linux'' (initial {}) [CallRun ''/d'' ''A''] = Some (run ''linux'' ''/d'' ''A'' (initial {}))
   \<and> card (alive (run ''linux'' ''/d'' ''A'' (initial {}))) \<le> 1
   \<and> spawned (run ''linux'' ''/d'' ''B'' (run ''linux'' ''/d'' ''A'' (initial {}))) = 1
   \<and> spawned (run ''linux'' ''/d'' ''B'' (emitExit ''linux'' 0 (Some 0)
        (run ''linux'' ''/d'' ''A'' (initial {})))) = 2"
proof -
  let ?s = "run ''linux'' ''/d'' ''A'' (initial {})"
  let ?s2 = "run ''linux'' ''/d'' ''B'' (emitExit ''linux'' 0 (Some 0) ?s)"
  have h: "steps ''linux'' (initial {}) [CallRun ''/d'' ''A''] = Some ?s"
    by (simp add: step_def)
  have s: "?s = \<lparr>currentProcess = Some 0, nextHandle = 1,
                 exitListeners = (\<lambda>_. [])(0 := [OnExitClear]), alive = {0}, files = {},
                 effects = [Emit ''bracketsjdk'' ''log'' ''Running class A...'',
                            Spawn 0 ''java A'' ''/d'']\<rparr>"
    by (simp add: run_idle initial_def)
  have e: "currentProcess (emitExit ''linux'' 0 (Some 0) ?s) = None"
    "alive (emitExit ''linux'' 0 (Some 0) ?s) = {}"
    "nextHandle (emitExit ''linux'' 0 (Some 0) ?s) = 1"
    by (simp_all add: s emitExit_def callListener_def onExit_def emitEvent_def perform_def Let_def)
  have 1: "steps ''linux'' ?s (ExitOf 0 (Some 0) # [CallRun ''/d'' ''B'']) = Some ?s2"
    by (simp add: step_def s)
  have 2: "list_all (\<lambda>e. \<not> isExit e) [CallRun ''/d'' ''B'']" by simp
  have 3: "step ''linux'' ?s2 (ExitOf 1 None) \<noteq> None"
    by (simp add: step_def run_idle e)
  have n: "currentProcess ?s \<noteq> None" by (simp add: s)
  have sp: "spawned ?s = 1" by (simp add: s spawned_def)
  from one_live_process [OF h] 1 2 3 n sp show ?thesis
    using h by (metis Suc_1)
qed

section \<open>Properties of the compiler gateway\<close>

lemma execSync_effects:
  "execSync sh command cwd s = (r, s') \<Longrightarrow>
   effects s' = effects s @ [ExecSync command cwd]
   \<and> files s' = snd (sh command cwd (files s))
   \<and> currentProcess s' = currentProcess s \<and> nextHandle s' = nextHandle s
   \<and> exitListeners s' = exitListeners s \<and> alive s' = alive s"
  by (auto simp add: execSync_def perform_def Let_def split: prod.splits if_splits)

lemma createDir_effects:
  "effects (createDir platform sh dir s) =
     effects s @ [ExecSync ((if platform = ''win32'' then ''md '' else ''mkdir -p '')
                             @ [CHR 0x22] @ dir @ [CHR 0x22]) None]"
  by (auto simp add: createDir_def dest: execSync_effects split: prod.splits sum.splits)

lemma emptyDir_effects:
  "emptyDir platform sh dir s = (r, s') \<Longrightarrow>
   effects s' =
     effects s @ [if platform = ''win32''
                  then ExecSync (''rmdir /S /Q '' @ [CHR 0x22] @ dir @ [CHR 0x22]) (Some dir)
                  else ExecSync (''rm -rf '' @ [CHR 0x22] @ dir @ [CHR 0x22] @ ''*'') None]"
  by (auto simp add: emptyDir_def dest: execSync_effects split: prod.splits sum.splits if_splits)

lemma invokeJavac_result:
  "sh (javacCommand filePaths outputPath) None (files s) = (r, fs) \<Longrightarrow>
   invokeJavac sh filePaths outputPath s =
     (Inr (status r = 0),
      s\<lparr>files := fs,
        effects := effects s @
          [Emit ''bracketsjdk'' ''log'' ''Compiling...'',
           ExecSync (javacCommand filePaths outputPath) None,
           if status r = 0 then Emit ''bracketsjdk'' ''log'' ''Done.''
           else Emit ''bracketsjdk'' ''error'' (stderr r)]\<rparr>)"
  by (simp add: invokeJavac_def execSync_def emitEvent_def perform_def Let_def)

lemmas posix_defs = createDir_def emptyDir_def execSync_def posix_sh_def between_def
  perform_def quotable_def under_glob_def stuck_def globbed_def glob_dir_def glob_base_def
  path_of_def succeeded_def failed_def not_found_def javacCommand_def suffix_to_prefix Let_def

text \<open>
  Claim C4. \<^verbatim>\<open>compileFiles\<close> with an empty list of files returns \<^verbatim>\<open>false\<close> at once, on
  every platform and whatever the shell would do: the file system and the list of the
  events emitted and the commands run are the ones before the call.
\<close>

theorem compileFiles_empty:
  "compileFiles platform sh [] outputPath s = (Inr False, s)"
  by (simp add: compileFiles_def)

theorem compileFiles_empty_witness:
  "compileFiles ''linux'' (posix_sh not_found) [] ''/out'' (initial {}) = (Inr False, initial {})"
  using compileFiles_empty [of "''linux''" "posix_sh not_found" "''/out''" "initial {}"] .

subsection \<open>Preparing the output directory\<close>




















text \<open>
  Three more ways in which the claim, as stated, fails. Under the documented form of the
  name, an entry whose name begins with a dot is not among those the pattern stands for,
  and stays. A create command that fails because a regular file has the name of the
  directory is passed over, and the compiler is invoked with no directory, on either
  platform. A clear command that fails makes \<^verbatim>\<open>compileFiles\<close> throw on a platform other
  than \<^verbatim>\<open>win32\<close>, and the compiler is not invoked at all.
\<close>

lemma emptyDir_keeps_hidden_entry:
  \<open>File [''p'', ''bin'', ''.keep''] \<in> files (snd (emptyDir ''linux'' (posix_sh not_found) ''/p/bin/''
       (createDir ''linux'' (posix_sh not_found) ''/p/bin/''
          (initial {Dir [''p''], Dir [''p'', ''bin''], File [''p'', ''bin'', ''.keep'']}))))\<close>
  by (simp add: initial_def posix_defs)

lemma createDir_failure_passed_over:
  \<open>Dir [''p'', ''bin''] \<notin> files (snd (compileFiles ''linux'' (posix_sh not_found)
       [''/p/A.java''] ''/p/bin/'' (initial {Dir [''p''], File [''p'', ''bin'']})))
   \<and> effects (snd (compileFiles ''linux'' (posix_sh not_found)
       [''/p/A.java''] ''/p/bin/'' (initial {Dir [''p''], File [''p'', ''bin'']}))) =
      [ExecSync ''mkdir -p "/p/bin/"'' None,
       ExecSync ''rm -rf "/p/bin/"*'' None,
       Emit ''bracketsjdk'' ''log'' ''Compiling...'',
       ExecSync ''javac "/p/A.java" -d "/p/bin/"'' None,
       Emit ''bracketsjdk'' ''error'' ''sh: 1: javac: not found'']\<close>
  by (simp add: compileFiles_def invokeJavac_def emitEvent_def initial_def posix_defs)

lemma md_failure_passed_over:
  \<open>Dir [''C:'', ''p'', ''bin''] \<notin> files (snd (compileFiles ''win32'' (win_sh not_found)
       [''C:/p/A.java''] ''C:/p/bin/''
       (initial {Dir [''C:''], Dir [''C:'', ''p''], File [''C:'', ''p'', ''bin'']})))
   \<and> effects (snd (compileFiles ''win32'' (win_sh not_found)
       [''C:/p/A.java''] ''C:/p/bin/''
       (initial {Dir [''C:''], Dir [''C:'', ''p''], File [''C:'', ''p'', ''bin'']}))) =
      [ExecSync ''md "C:/p/bin/"'' None,
       ExecSync ''rmdir /S /Q "C:/p/bin/"'' (Some ''C:/p/bin/''),
       Emit ''bracketsjdk'' ''log'' ''Compiling...'',
       ExecSync ''javac "C:/p/A.java" -d "C:/p/bin/"'' None,
       Emit ''bracketsjdk'' ''error'' ''sh: 1: javac: not found'']\<close>
  by (simp add: compileFiles_def invokeJavac_def emitEvent_def initial_def posix_defs
        win_sh_def win_quotable_def rmdir_inside_def)

lemma emptyDir_failure_thrown:
  \<open>compileFiles ''linux'' (posix_sh not_found) [''/p/A.java''] ''/p/bin/''
     (initial {Dir [''p''], Dir [''p'', ''bin''], Locked [''p'', ''bin''],
               File [''p'', ''bin'', ''Old.class'']}) =
   (Inl (ExecError (failed ''rm: cannot remove'')),
    (initial {Dir [''p''], Dir [''p'', ''bin''], Locked [''p'', ''bin''],
              File [''p'', ''bin'', ''Old.class'']})
      \<lparr>effects := [ExecSync ''mkdir -p "/p/bin/"'' None, ExecSync ''rm -rf "/p/bin/"*'' None]\<rparr>)\<close>
  by (simp add: compileFiles_def initial_def posix_defs) (auto simp add: failed_def)



text \<open>
  Claim C6. Once the output directory is prepared, a compiler that exits with a status
  other than zero makes \<^verbatim>\<open>compileFiles\<close> emit one \<^verbatim>\<open>"error"\<close> event, whose text is what
  the compiler wrote on its error stream, and return \<^verbatim>\<open>false\<close>; a compiler that exits with
  status zero makes it emit the \<^verbatim>\<open>"log"\<close> event \<^verbatim>\<open>Done.\<close> and return \<^verbatim>\<open>true\<close>. In both
  cases the only other event of the call is the \<^verbatim>\<open>"log"\<close> event \<^verbatim>\<open>Compiling...\<close> before it.
\<close>

theorem compileFiles_reports:
  assumes "filePaths \<noteq> []"
    and "emptyDir platform sh outputPath (createDir platform sh outputPath s) = (Inr (), s2)"
    and "sh (javacCommand filePaths outputPath) None (files s2) = (r, fs)"
  shows "(status r \<noteq> 0 \<longrightarrow>
            compileFiles platform sh filePaths outputPath s =
              (Inr False,
               s2\<lparr>files := fs,
                  effects := effects s2 @
                    [Emit ''bracketsjdk'' ''log'' ''Compiling...'',
                     ExecSync (javacCommand filePaths outputPath) None,
                     Emit ''bracketsjdk'' ''error'' (stderr r)]\<rparr>)
            \<and> filter isEmit (effects (snd (compileFiles platform sh filePaths outputPath s))) =
                filter isEmit (effects s) @
                  [Emit ''bracketsjdk'' ''log'' ''Compiling...'',
                   Emit ''bracketsjdk'' ''error'' (stderr r)])
       \<and> (status r = 0 \<longrightarrow>
            compileFiles platform sh filePaths outputPath s =
              (Inr True,
               s2\<lparr>files := fs,
                  effects := effects s2 @
                    [Emit ''bracketsjdk'' ''log'' ''Compiling...'',
                     ExecSync (javacCommand filePaths outputPath) None,
                     Emit ''bracketsjdk'' ''log'' ''Done.'']\<rparr>)
            \<and> filter isEmit (effects (snd (compileFiles platform sh filePaths outputPath s))) =
                filter isEmit (effects s) @
                  [Emit ''bracketsjdk'' ''log'' ''Compiling...'',
                   Emit ''bracketsjdk'' ''log'' ''Done.''])"
proof -
  have c: "compileFiles platform sh filePaths outputPath s = invokeJavac sh filePaths outputPath s2"
    using assms(1,2) by (simp add: compileFiles_def Let_def)
  have e: "filter isEmit (effects s2) = filter isEmit (effects s)"
    using emptyDir_effects [OF assms(2)] by (simp add: createDir_effects)
  show ?thesis
    using assms(3) invokeJavac_result [of sh filePaths outputPath s2 r fs] by (simp add: c e)
qed


theorem compileFiles_reports_witness:
  "fst (compileFiles ''linux'' (posix_sh not_found) [''/p/A.java''] ''/p/bin/'' (initial {})) = Inr False
   \<and> filter isEmit (effects (snd (compileFiles ''linux'' (posix_sh not_found) [''/p/A.java'']
         ''/p/bin/'' (initial {})))) =
       [Emit ''bracketsjdk'' ''log'' ''Compiling...'',
        Emit ''bracketsjdk'' ''error'' ''sh: 1: javac: not found'']
   \<and> fst (compileFiles ''linux'' (\<lambda>command cwd fs. (succeeded, fs)) [''/p/A.java''] ''/p/bin/''
        (initial {})) = Inr True
   \<and> filter isEmit (effects (snd (compileFiles ''linux'' (\<lambda>command cwd fs. (succeeded, fs))
         [''/p/A.java''] ''/p/bin/'' (initial {})))) =
       [Emit ''bracketsjdk'' ''log'' ''Compiling...'', Emit ''bracketsjdk'' ''log'' ''Done.'']"
proof -
  let ?s = "initial {}"
  let ?sh = "posix_sh not_found"
  let ?ok = "\<lambda>command cwd fs. (succeeded, fs :: entry set)"
  have n: "[''/p/A.java''] \<noteq> []" by simp
  obtain s2 where a: "emptyDir ''linux'' ?sh ''/p/bin/'' (createDir ''linux'' ?sh ''/p/bin/'' ?s) = (Inr (), s2)"
    by (simp add: posix_defs initial_def)
  have b: "?sh (javacCommand [''/p/A.java''] ''/p/bin/'') None (files s2) =
           (\<lparr>status = 127, stdout = [], stderr = ''sh: 1: javac: not found''\<rparr>, files s2)"
    by (simp add: posix_defs)
  obtain t2 where a': "emptyDir ''linux'' ?ok ''/p/bin/'' (createDir ''linux'' ?ok ''/p/bin/'' ?s) = (Inr (), t2)"
    by (simp add: posix_defs)
  have b': "?ok (javacCommand [''/p/A.java''] ''/p/bin/'') None (files t2) = (succeeded, files t2)"
    by simp
  show ?thesis
    using compileFiles_reports [OF n a b] compileFiles_reports [OF n a' b']
      emptyDir_effects [OF a] emptyDir_effects [OF a']
    by (simp add: initial_def succeeded_def createDir_effects)
qed


end
